theory Spec2Isabelle
  imports Complex_Main
begin

section \<open>Python values shared by both modules\<close>

text \<open>
  Exceptions are values. \<open>ValueError\<close> and \<open>NameError\<close> carry the message (for a
  \<open>NameError\<close>, the name that is not bound). \<open>LibraryError\<close> is an exception that
  leaves a call into an external library or a remote service; it carries whatever
  description that call gives.
\<close>

datatype error =
    ValueError string
  | NameError string
  | ZeroDivisionError
  | IndexError
  | KeyError string
  | LibraryError string

text \<open>
  \<open>s.split(sep)\<close> with a one-character separator cuts at every occurrence of the
  separator: the result is never empty, and two adjacent separators give an empty piece.
  \<open>split_where\<close> is that cut for any set of separator characters.
\<close>

fun split_where :: "(char \<Rightarrow> bool) \<Rightarrow> string \<Rightarrow> string list" where
  "split_where P [] = [[]]"
| "split_where P (c # cs) =
     (if P c then [] # split_where P cs
      else (case split_where P cs of
              [] \<Rightarrow> [[c]]
            | t # ts \<Rightarrow> (c # t) # ts))"

definition str_split :: "char \<Rightarrow> string \<Rightarrow> string list" where
  "str_split sep s = split_where (\<lambda>c. c = sep) s"

text \<open>\<open>sep.join(xs)\<close>.\<close>

fun str_join :: "string \<Rightarrow> string list \<Rightarrow> string" where
  "str_join sep [] = []"
| "str_join sep [x] = x"
| "str_join sep (x # y # ys) = x @ sep @ str_join sep (y # ys)"

text \<open>\<open>str(n)\<close> for a non-negative integer, and for any integer.\<close>

function str_nat :: "nat \<Rightarrow> string" where
  "str_nat n =
     (if n < 10 then [char_of (48 + n)]
      else str_nat (n div 10) @ [char_of (48 + n mod 10)])"
  by pat_completeness auto
termination
  by (relation "measure (\<lambda>n. n)") auto

declare str_nat.simps [simp del]

definition str_int :: "int \<Rightarrow> string" where
  "str_int i = (if i < 0 then CHR ''-'' # str_nat (nat (- i)) else str_nat (nat i))"


section \<open>download\_data/get\_entries\_utils.py: paging over the OQMD REST interface\<close>

text \<open>
  The keyword arguments of one request are a dictionary literal; its values are integers
  or strings. The response is the decoded JSON: the code reads \<open>data["data"]\<close> and
  \<open>data["links"]["next"]\<close>, which is a URL or null.
\<close>

datatype kwval = IntV int | StrV string

type_synonym kwargs = "(string \<times> kwval) list"

record 'e response =
  data :: "'e list"
  links_next :: "string option"

text \<open>Truth value of \<open>data["links"]["next"]\<close>: null and the empty string are false.\<close>

definition truthy :: "string option \<Rightarrow> bool" where
  "truthy v = (case v of None \<Rightarrow> False | Some s \<Rightarrow> s \<noteq> [])"

text \<open>\<open>maximum_pages\<close> is an integer or the default \<open>np.inf\<close>.\<close>

datatype max_pages = Pages int | Unbounded

fun le_pages :: "nat \<Rightarrow> max_pages \<Rightarrow> bool" where
  "le_pages n (Pages m) = (int n \<le> m)"
| "le_pages n Unbounded = True"

text \<open>
  The remote service is a parameter: \<open>q k kwargs\<close> is the response to the request
  \<open>kwargs\<close> when \<open>k\<close> requests were answered before it. This covers a service that
  answers by the offset and one that answers by a fixed sequence of responses.

  The local variables of the loop are the state; \<open>requests\<close> is the trace of the
  keyword arguments passed to \<open>get_oqmd_phases\<close>, in the order of the calls.
\<close>

type_synonym 'e oqmd = "nat \<Rightarrow> kwargs \<Rightarrow> 'e response"

record 'e loop_state =
  continue_bool :: bool
  batch_num :: nat
  cumulative_data :: "'e list"
  requests :: "kwargs list"

definition initial_state :: "'e loop_state" where
  "initial_state =
     \<lparr>continue_bool = True, batch_num = 0, cumulative_data = [], requests = []\<rparr>"

text \<open>The body of the \<open>while\<close> loop of \<open>get_all_entries\<close>.\<close>

definition get_all_entries_body ::
  "'e oqmd \<Rightarrow> max_pages \<Rightarrow> int \<Rightarrow> 'e loop_state \<Rightarrow> 'e loop_state" where
  "get_all_entries_body q maximum_pages page_limit s =
     (let kwargs = [(''limit'', IntV page_limit),
                    (''offset'', IntV (int (batch_num s) * page_limit)),
                    (''filter'', StrV ''stability <= 0.1 AND delta_e <= 0 AND ntypes < 4'')];
          dat = q (length (requests s)) kwargs;
          cumulative = cumulative_data s @ data dat;
          bn = batch_num s + 1
      in \<lparr>continue_bool = (truthy (links_next dat) \<and> le_pages bn maximum_pages),
          batch_num = bn,
          cumulative_data = cumulative,
          requests = requests s @ [kwargs]\<rparr>)"

text \<open>The loop may run forever (no bound and a service that always gives a next link).\<close>

partial_function (option) get_all_entries_while ::
  "'e oqmd \<Rightarrow> max_pages \<Rightarrow> int \<Rightarrow> 'e loop_state \<Rightarrow> 'e loop_state option" where
  "get_all_entries_while q maximum_pages page_limit s =
     (if continue_bool s
      then get_all_entries_while q maximum_pages page_limit
             (get_all_entries_body q maximum_pages page_limit s)
      else Some s)"

declare get_all_entries_while.simps [code]

text \<open>The result is the returned list together with the trace of requests.\<close>

definition get_all_entries ::
  "'e oqmd \<Rightarrow> max_pages \<Rightarrow> int \<Rightarrow> ('e list \<times> kwargs list) option" where
  "get_all_entries q maximum_pages page_limit =
     map_option (\<lambda>s. (cumulative_data s, requests s))
       (get_all_entries_while q maximum_pages page_limit initial_state)"

text \<open>
  The states at the head of the loop: the initial one, and the one the body leaves when
  the loop is entered again.
\<close>

inductive loop_head :: "'e oqmd \<Rightarrow> max_pages \<Rightarrow> int \<Rightarrow> 'e loop_state \<Rightarrow> bool"
  for q :: "'e oqmd" and maximum_pages :: max_pages and page_limit :: int where
  start: "loop_head q maximum_pages page_limit initial_state"
| again: "loop_head q maximum_pages page_limit s \<Longrightarrow> continue_bool s \<Longrightarrow>
          loop_head q maximum_pages page_limit (get_all_entries_body q maximum_pages page_limit s)"

text \<open>
  \<open>get_icsd_entries\<close> has the same statements, in a \<open>with\<close> block and without a
  \<open>while\<close>: they run once.
\<close>

definition get_icsd_entries ::
  "'e oqmd \<Rightarrow> max_pages \<Rightarrow> int \<Rightarrow> 'e list \<times> kwargs list" where
  "get_icsd_entries q maximum_pages page_limit =
     (let s = (initial_state :: 'e loop_state);
          kwargs = [(''limit'', IntV page_limit),
                    (''offset'', IntV (int (batch_num s) * page_limit)),
                    (''icsd'', StrV ''T'')];
          dat = q (length (requests s)) kwargs;
          cumulative = cumulative_data s @ data dat;
          bn = batch_num s + 1;
          s' = \<lparr>continue_bool = (truthy (links_next dat) \<and> le_pages bn maximum_pages),
                batch_num = bn,
                cumulative_data = cumulative,
                requests = requests s @ [kwargs]\<rparr>
      in (cumulative_data s', requests s'))"

text \<open>
  A service that holds the six entries 0 to 5 and serves them by \<open>limit\<close> and
  \<open>offset\<close>, with a next link while entries remain after the page.
\<close>

definition six_entries :: "nat oqmd" where
  "six_entries k kwargs =
     (case (map_of kwargs ''limit'', map_of kwargs ''offset'') of
        (Some (IntV limit), Some (IntV offset)) \<Rightarrow>
          \<lparr>data = filter (\<lambda>e. offset \<le> int e \<and> int e < offset + limit) [0..<6],
           links_next = (if offset + limit < 6
                         then Some ''/oqmdapi/formationenergy?next'' else None)\<rparr>
      | _ \<Rightarrow> \<lparr>data = [], links_next = None\<rparr>)"


section \<open>download\_data/get\_entries\_utils.py: from an OQMD entry to a database row\<close>

text \<open>
  An OQMD entry is the decoded JSON object of one phase. The keys that the code reads or
  writes are the fields; \<open>atoms_obj\<close> and \<open>pmg_struct\<close> are absent until
  \<open>get_ase_object\<close> stores them. The code does no arithmetic on the numbers of an
  entry, so their type \<open>'f\<close> is left open.
\<close>

record ('f, 'a, 's) oqmd_entry =
  unit_cell :: "'f list list"
  sites :: "string list"
  entry_id :: int
  delta_e :: 'f
  atoms_obj :: "'a option"
  pmg_struct :: "'s option"

text \<open>
  The constructors of pymatgen and ASE that \<open>get_ase_object\<close> calls, and Python's
  \<open>float\<close>, which raises \<open>ValueError\<close> on a string that is not a number
  (here: gives \<open>None\<close>; the model keeps the fixed part of the message of that
  \<open>ValueError\<close>, without the quoted string that follows it).
\<close>

record ('f, 'l, 's, 'a) structure_lib =
  Lattice :: "'f list list \<Rightarrow> 'l"
  Structure :: "'l \<Rightarrow> string list \<Rightarrow> 'f list list \<Rightarrow> 's"
  get_atoms :: "'s \<Rightarrow> 'a"
  float :: "string \<Rightarrow> 'f option"

text \<open>The loop over \<open>entry["sites"]\<close>, with the two lists it appends to.\<close>

fun sites_loop ::
  "(string \<Rightarrow> 'f option) \<Rightarrow> string list \<Rightarrow> string list \<Rightarrow> 'f list list \<Rightarrow>
     error + (string list \<times> 'f list list)" where
  "sites_loop to_float [] elems coords = Inr (elems, coords)"
| "sites_loop to_float (atom_info # rest) elems coords =
     (let info = str_split CHR '' '' atom_info in
      case info of
        [] \<Rightarrow> Inl IndexError
      | el # _ \<Rightarrow>
          (case those (map to_float (drop 2 info)) of
             None \<Rightarrow> Inl (ValueError ''could not convert string to float'')
           | Some xs \<Rightarrow> sites_loop to_float rest (elems @ [el]) (coords @ [xs])))"

text \<open>\<open>get_ase_object\<close> returns the atoms object and leaves the entry updated.\<close>

definition get_ase_object ::
  "('f, 'l, 's, 'a) structure_lib \<Rightarrow> ('f, 'a, 's) oqmd_entry \<Rightarrow>
     error + ('a \<times> ('f, 'a, 's) oqmd_entry)" where
  "get_ase_object lib entry =
     (let cell = unit_cell entry in
      case sites_loop (float lib) (sites entry) [] [] of
        Inl e \<Rightarrow> Inl e
      | Inr (elems, coords) \<Rightarrow>
          (let lattice = Lattice lib cell;
               s = Structure lib lattice elems coords;
               atoms = get_atoms lib s
           in Inr (atoms, entry\<lparr>atoms_obj := Some atoms, pmg_struct := Some s\<rparr>)))"

text \<open>
  A row of the ASE database: the atoms object and the three key-value pairs passed to
  \<open>db.write\<close>. A database is the list of its rows, in the order they were written.
\<close>

record ('f, 'a) db_row =
  row_atoms :: 'a
  source :: string
  bulk_id :: string
  formation_energy :: 'f

text \<open>
  The loop of \<open>write_data\<close>: \<open>db\<close> is the database, \<open>seen\<close> the entries already
  converted (the caller's dictionaries, as \<open>get_ase_object\<close> left them).
\<close>

fun write_data_loop ::
  "('f, 'l, 's, 'a) structure_lib \<Rightarrow> ('f, 'a, 's) oqmd_entry list \<Rightarrow>
     ('f, 'a) db_row list \<Rightarrow> ('f, 'a, 's) oqmd_entry list \<Rightarrow>
     error + (('f, 'a) db_row list \<times> ('f, 'a, 's) oqmd_entry list)" where
  "write_data_loop lib [] db seen = Inr (db, seen)"
| "write_data_loop lib (entry # rest) db seen =
     (case get_ase_object lib entry of
        Inl e \<Rightarrow> Inl e
      | Inr (atoms, entry') \<Rightarrow>
          (let oqmd_id = ''oqmd-'' @ str_int (entry_id entry')
           in write_data_loop lib rest
                (db @ [\<lparr>row_atoms = atoms, source = ''oqmd'', bulk_id = oqmd_id,
                          formation_energy = delta_e entry'\<rparr>])
                (seen @ [entry'])))"

text \<open>
  \<open>files\<close> gives the database stored under each path. When an exception leaves the
  \<open>with\<close> block, what the file holds depends on the database backend; the model
  then gives the exception only.
\<close>

definition write_data ::
  "('f, 'l, 's, 'a) structure_lib \<Rightarrow> ('f, 'a, 's) oqmd_entry list \<Rightarrow> string \<Rightarrow>
     (string \<Rightarrow> ('f, 'a) db_row list) \<Rightarrow>
     error + ((string \<Rightarrow> ('f, 'a) db_row list) \<times> ('f, 'a, 's) oqmd_entry list)" where
  "write_data lib entries path files =
     (case write_data_loop lib entries (files path) [] of
        Inl e \<Rightarrow> Inl e
      | Inr (db, entries') \<Rightarrow> Inr (files(path := db), entries'))"

text \<open>
  The tokens of a string in the usual sense of "whitespace-separated" (Python's
  \<open>s.split()\<close>): the maximal runs of characters that are not whitespace.
\<close>

definition is_whitespace :: "char \<Rightarrow> bool" where
  "is_whitespace c = (c \<in> set [CHR '' '', CHR 0x09, CHR 0x0A, CHR 0x0B, CHR 0x0C, CHR 0x0D])"

definition whitespace_tokens :: "string \<Rightarrow> string list" where
  "whitespace_tokens s = filter (\<lambda>t. t \<noteq> []) (split_where is_whitespace s)"

text \<open>
  The extraction from one site string as the specification words it: the element symbol
  is the first whitespace-separated token, the coordinates are the tokens from index 2
  onward parsed as floats. It is compared with what \<open>sites_loop\<close> does.
\<close>

definition site_by_whitespace ::
  "(string \<Rightarrow> 'f option) \<Rightarrow> string \<Rightarrow> (string \<times> 'f list) option" where
  "site_by_whitespace to_float atom_info =
     (case whitespace_tokens atom_info of
        [] \<Rightarrow> None
      | el # _ \<Rightarrow>
          map_option (\<lambda>xs. (el, xs))
            (those (map to_float (drop 2 (whitespace_tokens atom_info)))))"

text \<open>
  A library for concrete runs: numbers are integers written in decimal digits, a lattice
  is its cell, a structure the triple it was built from, an atoms object the structure.
\<close>

fun digits_value :: "string \<Rightarrow> nat \<Rightarrow> nat option" where
  "digits_value [] acc = Some acc"
| "digits_value (c # cs) acc =
     (if c \<in> set ''0123456789''
      then digits_value cs (10 * acc + ((of_char c :: nat) - 48))
      else None)"

definition decimal :: "string \<Rightarrow> int option" where
  "decimal s = (if s = [] then None else map_option int (digits_value s 0))"

definition plain_lib ::
  "(int, int list list, int list list \<times> string list \<times> int list list,
    int list list \<times> string list \<times> int list list) structure_lib" where
  "plain_lib =
     \<lparr>Lattice = (\<lambda>cell. cell),
      Structure = (\<lambda>lattice elems coords. (lattice, elems, coords)),
      get_atoms = (\<lambda>s. s),
      float = decimal\<rparr>"


text \<open>Two entries as OQMD gives them, and two with a site string of another shape.\<close>

definition entry_Fe :: "(int, int list list \<times> string list \<times> int list list,
    int list list \<times> string list \<times> int list list) oqmd_entry" where
  "entry_Fe =
     \<lparr>unit_cell = [[2, 0, 0], [0, 2, 0], [0, 0, 2]],
      sites = [''Fe @ 0 0 0'', ''Fe @ 1 1 1''],
      entry_id = 4061,
      delta_e = 0,
      atoms_obj = None,
      pmg_struct = None\<rparr>"

definition entry_NaCl :: "(int, int list list \<times> string list \<times> int list list,
    int list list \<times> string list \<times> int list list) oqmd_entry" where
  "entry_NaCl =
     \<lparr>unit_cell = [[4, 0, 0], [0, 4, 0], [0, 0, 4]],
      sites = [''Na @ 0 0 0'', ''Cl @ 2 2 2''],
      entry_id = 1216,
      delta_e = -2,
      atoms_obj = None,
      pmg_struct = None\<rparr>"

definition entry_two_spaces :: "(int, int list list \<times> string list \<times> int list list,
    int list list \<times> string list \<times> int list list) oqmd_entry" where
  "entry_two_spaces = entry_Fe\<lparr>sites := [''Fe  @ 0 0 0'']\<rparr>"

definition entry_no_number :: "(int, int list list \<times> string list \<times> int list list,
    int list list \<times> string list \<times> int list list) oqmd_entry" where
  "entry_no_number = entry_Fe\<lparr>sites := [''Fe @ x y z'']\<rparr>"


section \<open>mprester\_ocp.py: the entries of a Pourbaix diagram\<close>

subsection \<open>Data of pymatgen and of the Materials Project\<close>

text \<open>
  A composition gives the amount of each element; \<open>composition[el]\<close> is 0 for an
  element it does not contain. Its reduced formula and the factor of
  \<open>get_reduced_composition_and_factor\<close> are computed by pymatgen and taken as given.
  Energies and amounts are of a type \<open>'f\<close> with the arithmetic operations and a linear
  order; an element is its symbol.
\<close>

type_synonym element = string

record 'f composition =
  amounts :: "(element \<times> 'f) list"
  reduced_formula :: string
  reduced_factor :: 'f

definition elements :: "'f composition \<Rightarrow> element list" where
  "elements c = map fst (amounts c)"

definition amount :: "'f::zero composition \<Rightarrow> element \<Rightarrow> 'f" where
  "amount c el = (case map_of (amounts c) el of None \<Rightarrow> 0 | Some a \<Rightarrow> a)"

text \<open>
  A computed entry; \<open>e_above_hull\<close> is \<open>data["e_above_hull"]\<close>, \<open>None\<close> when the
  \<open>data\<close> dictionary has no such key.
\<close>

record 'f computed_entry =
  composition :: "'f composition"
  energy :: 'f
  entry_id :: string
  e_above_hull :: "'f option"

record 'f ion =
  ion_composition :: "'f composition"
  charge :: int

text \<open>One record of the ion reference data, with the keys that the code reads.\<close>

record 'f ion_record =
  Name :: string
  Reference_Solid :: string
  Reference_solid_energy :: 'f
  Major_Elements :: "string list"
  Energy :: 'f

datatype 'f ion_entry = IonEntry "'f ion" 'f

text \<open>\<open>PourbaixEntry(entry, entry_id=None)\<close> wraps an ion entry or a computed entry.\<close>

datatype 'f pourbaix_entry =
  PourbaixEntry "'f ion_entry + 'f computed_entry" "string option"

datatype compatibility =
    MaterialsProjectCompatibility
  | MaterialsProject2020Compatibility
  | UserCompatibility nat

text \<open>
  The argument \<open>solid_compat\<close>: a string, an instance of \<open>Compatibility\<close>, or any
  other object (\<open>None\<close>, a class, ...). The argument \<open>chemsys\<close>: a string or a list
  of strings.
\<close>

datatype solid_compat_arg = Str string | Instance compatibility | Object

datatype chemsys_arg = Chemsys_str string | Chemsys_list "string list"

text \<open>
  The object \<open>self\<close>: the attribute the function assigns, and the trace of the calls
  to the Materials Project that it makes.
\<close>

datatype api_call = Request string | Entries_in_chemsys "string set"

record rester =
  solid_compat :: "compatibility option"
  api_calls :: "api_call list"

text \<open>
  What the function is run against. \<open>extra_globals\<close> are the names bound in the
  module's namespace besides those that its \<open>import\<close> statements and its class
  statement bind; it is empty unless a caller binds more after the import. The calls to
  the Materials Project may raise (\<open>Inl\<close> with a description). A phase diagram is
  given by its \<open>get_form_energy\<close>.
\<close>

record 'f world =
  extra_globals :: "string list"
  make_request :: "string \<Rightarrow> string + 'f ion_record list"
  get_entries_in_chemsys :: "string set \<Rightarrow> string + 'f computed_entry list"
  Composition :: "string \<Rightarrow> 'f composition"
  Ion_from_formula :: "string \<Rightarrow> 'f ion"
  process_entries :: "compatibility \<Rightarrow> 'f computed_entry list \<Rightarrow> 'f computed_entry list"
  PhaseDiagram :: "'f computed_entry list \<Rightarrow> string + ('f computed_entry \<Rightarrow> 'f)"

subsection \<open>The function\<close>

text \<open>Lines 39 to 49: the value assigned to \<open>self.solid_compat\<close>, or the exception.\<close>

definition validate_solid_compat :: "solid_compat_arg \<Rightarrow> error + compatibility" where
  "validate_solid_compat arg =
     (if arg = Str ''MaterialsProjectCompatibility'' then Inr MaterialsProjectCompatibility
      else if arg = Str ''MaterialsProject2020Compatibility''
        then Inr MaterialsProject2020Compatibility
      else (case arg of
              Instance c \<Rightarrow> Inr c
            | _ \<Rightarrow> Inl (ValueError ''Solid compatibility can only be 'MaterialsProjectCompatibility', 'MaterialsProject2020Compatibility', or an instance of a Compatibility class'')))"

definition chemsys_elements :: "chemsys_arg \<Rightarrow> string list" where
  "chemsys_elements chemsys =
     (case chemsys of Chemsys_str s \<Rightarrow> str_split CHR ''-'' s | Chemsys_list xs \<Rightarrow> xs)"

definition reference_data_url :: "string list \<Rightarrow> string" where
  "reference_data_url chemsys = ''/pourbaix_diagram/reference_data/'' @ str_join ''-'' chemsys"

definition ion_ref_elements :: "'f world \<Rightarrow> 'f ion_record list \<Rightarrow> element list" where
  "ion_ref_elements w ion_data =
     (let ion_ref_comps = map (\<lambda>d. Composition w (Reference_Solid d)) ion_data
      in concat (map elements ion_ref_comps))"

text \<open>
  Lines 90 to 109: one iteration of the loop over the ion records. \<open>sorted\<close> computes
  the key of every element, then sorts stably.
\<close>

definition ion_pourbaix_entry ::
  "'f::{linorder,zero,plus,minus,times,inverse} world \<Rightarrow> ('f computed_entry \<Rightarrow> 'f) \<Rightarrow>
     'f computed_entry list \<Rightarrow> nat \<Rightarrow> 'f ion_record \<Rightarrow> error + 'f pourbaix_entry" where
  "ion_pourbaix_entry w ion_ref_pd ion_ref_entries n i_d =
     (let ion = Ion_from_formula w (Name i_d);
          refs = filter (\<lambda>e. reduced_formula (composition e) = Reference_Solid i_d)
                   ion_ref_entries
      in if refs = [] then Inl (ValueError ''Reference solid not contained in entry list'')
         else
           (case those (map e_above_hull refs) of
              None \<Rightarrow> Inl (KeyError ''e_above_hull'')
            | Some keys \<Rightarrow>
                (case map snd (sort_key fst (zip keys refs)) of
                   [] \<Rightarrow> Inl IndexError
                 | stable_ref # _ \<Rightarrow>
                     (let rf = reduced_factor (composition stable_ref);
                          solid_diff = ion_ref_pd stable_ref - Reference_solid_energy i_d * rf
                      in case Major_Elements i_d of
                           [] \<Rightarrow> Inl IndexError
                         | elt # _ \<Rightarrow>
                             if amount (composition stable_ref) elt = 0 then Inl ZeroDivisionError
                             else
                               (let correction_factor =
                                      amount (ion_composition ion) elt /
                                      amount (composition stable_ref) elt;
                                    energy = Energy i_d + solid_diff * correction_factor;
                                    ion_entry = IonEntry ion energy
                                in Inr (PourbaixEntry (Inl ion_entry)
                                         (Some (''ion-'' @ str_nat n))))))))"

text \<open>The loop of line 89, over \<open>enumerate(ion_data)\<close> from the index \<open>n\<close> on.\<close>

fun ion_loop ::
  "'f::{linorder,zero,plus,minus,times,inverse} world \<Rightarrow> ('f computed_entry \<Rightarrow> 'f) \<Rightarrow>
     'f computed_entry list \<Rightarrow> nat \<Rightarrow> 'f ion_record list \<Rightarrow> 'f pourbaix_entry list \<Rightarrow>
     error + 'f pourbaix_entry list" where
  "ion_loop w ion_ref_pd ion_ref_entries n [] pbx_entries = Inr pbx_entries"
| "ion_loop w ion_ref_pd ion_ref_entries n (i_d # rest) pbx_entries =
     (case ion_pourbaix_entry w ion_ref_pd ion_ref_entries n i_d of
        Inl e \<Rightarrow> Inl e
      | Inr pbx_entry \<Rightarrow>
          ion_loop w ion_ref_pd ion_ref_entries (Suc n) rest (pbx_entries @ [pbx_entry]))"

text \<open>Lines 113 to 117.\<close>

definition extra_elements :: "element list \<Rightarrow> string list \<Rightarrow> element set" where
  "extra_elements ion_ref_elts chemsys = set ion_ref_elts - set chemsys - {''H'', ''O''}"

text \<open>Lines 120 to 125: the test that an entry becomes a solid Pourbaix entry.\<close>

definition is_solid_entry :: "element set \<Rightarrow> 'f computed_entry \<Rightarrow> bool" where
  "is_solid_entry extra_elts entry =
     (let entry_elts = set (elements (composition entry))
      in \<not> (entry_elts \<subseteq> {''H'', ''O''} \<or> extra_elts \<inter> entry_elts \<noteq> {}))"

text \<open>Lines 127 to 131.\<close>

definition solid_pourbaix_entry ::
  "('f computed_entry \<Rightarrow> 'f) \<Rightarrow> 'f computed_entry \<Rightarrow> 'f pourbaix_entry" where
  "solid_pourbaix_entry ion_ref_pd entry =
     (let form_e = ion_ref_pd entry;
          new_entry = \<lparr>composition = composition entry, energy = form_e,
                       entry_id = entry_id entry, e_above_hull = None\<rparr>
      in PourbaixEntry (Inr new_entry) None)"

text \<open>The loop of line 119. \<open>ComputedEntry\<close> is looked up when an entry passes the test.\<close>

fun solid_loop ::
  "'f world \<Rightarrow> ('f computed_entry \<Rightarrow> 'f) \<Rightarrow> element set \<Rightarrow> 'f computed_entry list \<Rightarrow>
     'f pourbaix_entry list \<Rightarrow> error + 'f pourbaix_entry list" where
  "solid_loop w ion_ref_pd extra_elts [] pbx_entries = Inr pbx_entries"
| "solid_loop w ion_ref_pd extra_elts (entry # rest) pbx_entries =
     (if is_solid_entry extra_elts entry
      then (if ''ComputedEntry'' \<in> set (extra_globals w)
            then solid_loop w ion_ref_pd extra_elts rest
                   (pbx_entries @ [solid_pourbaix_entry ion_ref_pd entry])
            else Inl (NameError ''ComputedEntry''))
      else solid_loop w ion_ref_pd extra_elts rest pbx_entries)"

text \<open>
  The whole function. It gives the list it returns or the exception it raises, and the
  object \<open>self\<close> as it leaves it.
\<close>

definition get_pourbaix_entries_w_add_entries ::
  "'f::{linorder,zero,plus,minus,times,inverse} world \<Rightarrow> rester \<Rightarrow> chemsys_arg \<Rightarrow>
     solid_compat_arg \<Rightarrow> 'f computed_entry list \<Rightarrow>
     (error + 'f pourbaix_entry list) \<times> rester" where
  "get_pourbaix_entries_w_add_entries w self chemsys solid_compat_a additional_entries =
     (case validate_solid_compat solid_compat_a of
        Inl e \<Rightarrow> (Inl e, self)
      | Inr sc \<Rightarrow>
          (let self1 = self\<lparr>solid_compat := Some sc\<rparr>;
               chemsys' = chemsys_elements chemsys;
               url = reference_data_url chemsys';
               self2 = self1\<lparr>api_calls := api_calls self1 @ [Request url]\<rparr>
           in case make_request w url of
                Inl x \<Rightarrow> (Inl (LibraryError x), self2)
              | Inr ion_data \<Rightarrow>
                  if ''itertools'' \<notin> set (extra_globals w)
                  then (Inl (NameError ''itertools''), self2)
                  else
                    (let ion_ref_elts = ion_ref_elements w ion_data;
                         els = set (ion_ref_elts @ [''O'', ''H'']);
                         self3 = self2\<lparr>api_calls := api_calls self2 @ [Entries_in_chemsys els]\<rparr>
                     in case get_entries_in_chemsys w els of
                          Inl x \<Rightarrow> (Inl (LibraryError x), self3)
                        | Inr fetched \<Rightarrow>
                            if ''warnings'' \<notin> set (extra_globals w)
                            then (Inl (NameError ''warnings''), self3)
                            else
                              (let ion_ref_entries = process_entries w sc fetched
                               in case PhaseDiagram w ion_ref_entries of
                                    Inl x \<Rightarrow> (Inl (LibraryError x), self3)
                                  | Inr ion_ref_pd \<Rightarrow>
                                      (case ion_loop w ion_ref_pd ion_ref_entries 0 ion_data [] of
                                         Inl e \<Rightarrow> (Inl e, self3)
                                       | Inr pbx_entries \<Rightarrow>
                                           if ''Element'' \<notin> set (extra_globals w)
                                           then (Inl (NameError ''Element''), self3)
                                           else
                                             (let extra_elts = extra_elements ion_ref_elts chemsys'
                                              in (solid_loop w ion_ref_pd extra_elts
                                                    (ion_ref_entries @ additional_entries)
                                                    pbx_entries,
                                                  self3)))))))"


subsection \<open>A chemical system for concrete runs\<close>

text \<open>
  The system S: the sulfate ion, whose reference solid Na2SO4 brings in Na. The service
  holds two entries for Na2SO4, and entries for S, O2 and SO3; energies are rational
  numbers, and the phase diagram gives an entry's energy as its formation energy.
\<close>

definition sulfate_record :: "real ion_record" where
  "sulfate_record =
     \<lparr>Name = ''SO4[2-]'', Reference_Solid = ''Na2SO4'', Reference_solid_energy = - 13,
      Major_Elements = [''S''], Energy = - 8\<rparr>"

definition sulfate_ion :: "real ion" where
  "sulfate_ion =
     \<lparr>ion_composition = \<lparr>amounts = [(''S'', 1), (''O'', 4)], reduced_formula = ''SO4'',
                          reduced_factor = 1\<rparr>,
      charge = - 2\<rparr>"

definition Na2SO4_comp :: "real composition" where
  "Na2SO4_comp =
     \<lparr>amounts = [(''Na'', 2), (''S'', 1), (''O'', 4)], reduced_formula = ''Na2SO4'',
      reduced_factor = 1\<rparr>"

definition Na2SO4_double :: "real computed_entry" where
  "Na2SO4_double =
     \<lparr>composition = \<lparr>amounts = [(''Na'', 4), (''S'', 2), (''O'', 8)],
                      reduced_formula = ''Na2SO4'', reduced_factor = 2\<rparr>,
      energy = - 30, entry_id = ''mp-1'', e_above_hull = Some 0\<rparr>"

definition Na2SO4_single :: "real computed_entry" where
  "Na2SO4_single =
     \<lparr>composition = Na2SO4_comp, energy = - 14, entry_id = ''mp-2'',
      e_above_hull = Some (1 / 2)\<rparr>"

definition S8_entry :: "real computed_entry" where
  "S8_entry =
     \<lparr>composition = \<lparr>amounts = [(''S'', 8)], reduced_formula = ''S'', reduced_factor = 8\<rparr>,
      energy = 0, entry_id = ''mp-3'', e_above_hull = Some 0\<rparr>"

definition O2_entry :: "real computed_entry" where
  "O2_entry =
     \<lparr>composition = \<lparr>amounts = [(''O'', 2)], reduced_formula = ''O2'', reduced_factor = 1\<rparr>,
      energy = 0, entry_id = ''mp-4'', e_above_hull = Some 0\<rparr>"

definition SO3_entry :: "real computed_entry" where
  "SO3_entry =
     \<lparr>composition = \<lparr>amounts = [(''S'', 1), (''O'', 3)], reduced_formula = ''SO3'',
                      reduced_factor = 1\<rparr>,
      energy = - 5, entry_id = ''mp-5'', e_above_hull = Some 0\<rparr>"

text \<open>An entry of the caller's own, without \<open>e_above_hull\<close>.\<close>

definition S2O_entry :: "real computed_entry" where
  "S2O_entry =
     \<lparr>composition = \<lparr>amounts = [(''S'', 2), (''O'', 1)], reduced_formula = ''S2O'',
                      reduced_factor = 1\<rparr>,
      energy = - 1, entry_id = ''ocp-1'', e_above_hull = None\<rparr>"

definition sulfur_entries :: "real computed_entry list" where
  "sulfur_entries = [Na2SO4_single, Na2SO4_double, S8_entry, O2_entry, SO3_entry]"

text \<open>
  The module as it is (\<open>shipped_world\<close>), the same with the four names bound
  (\<open>patched_world\<close>), and the module as it is with the service out of reach
  (\<open>offline_world\<close>).
\<close>

definition shipped_world :: "real world" where
  "shipped_world =
     \<lparr>extra_globals = [],
      make_request = (\<lambda>url. if url = ''/pourbaix_diagram/reference_data/S''
                             then Inr [sulfate_record] else Inl ''MPRestError''),
      get_entries_in_chemsys = (\<lambda>els. Inr sulfur_entries),
      Composition = (\<lambda>formula. Na2SO4_comp),
      Ion_from_formula = (\<lambda>formula. sulfate_ion),
      process_entries = (\<lambda>compat entries. entries),
      PhaseDiagram = (\<lambda>entries. Inr energy)\<rparr>"

definition patched_world :: "real world" where
  "patched_world =
     shipped_world\<lparr>extra_globals := [''itertools'', ''warnings'', ''Element'', ''ComputedEntry'']\<rparr>"


definition fresh_rester :: rester where
  "fresh_rester = \<lparr>solid_compat = None, api_calls = []\<rparr>"



section \<open>Properties of the paging functions\<close>

subsection \<open>Invariants of the loop of \<open>get_all_entries\<close>\<close>

lemma body_batch_num:
  "batch_num (get_all_entries_body q mp pl s) = batch_num s + 1"
  by (simp add: get_all_entries_body_def Let_def)

lemma body_continue_le:
  "continue_bool (get_all_entries_body q (Pages m) pl s) \<Longrightarrow> int (batch_num s) + 1 \<le> m"
  by (simp add: get_all_entries_body_def Let_def)

lemma body_requests:
  "requests (get_all_entries_body q mp pl s) =
     requests s @ [[(''limit'', IntV pl), (''offset'', IntV (int (batch_num s) * pl)),
       (''filter'', StrV ''stability <= 0.1 AND delta_e <= 0 AND ntypes < 4'')]]"
  by (simp add: get_all_entries_body_def Let_def)

lemma loop_head_length:
  "loop_head q mp pl s \<Longrightarrow> length (requests s) = batch_num s"
proof (induction rule: loop_head.induct)
  case start
  show ?case by (simp add: initial_state_def)
next
  case (again s)
  then show ?case by (simp add: body_requests body_batch_num)
qed

lemma loop_head_requests:
  "loop_head q mp pl s \<Longrightarrow>
     requests s =
       map (\<lambda>k. [(''limit'', IntV pl), (''offset'', IntV (int k * pl)),
                 (''filter'', StrV ''stability <= 0.1 AND delta_e <= 0 AND ntypes < 4'')])
         [0..<batch_num s]"
proof (induction rule: loop_head.induct)
  case start
  show ?case by (simp add: initial_state_def)
next
  case (again s)
  then show ?case by (simp add: body_requests body_batch_num)
qed

text \<open>When the loop returns, it returns a state at the head of the loop with the flag off.\<close>

lemma while_loop_head:
  assumes "get_all_entries_while q mp pl s = Some t"
  shows "loop_head q mp pl s \<longrightarrow> loop_head q mp pl t \<and> \<not> continue_bool t"
proof (rule get_all_entries_while.raw_induct
    [where P = "\<lambda>q mp pl s t. loop_head q mp pl s \<longrightarrow> loop_head q mp pl t \<and> \<not> continue_bool t",
      OF _ assms])
  fix f :: "'a oqmd \<Rightarrow> max_pages \<Rightarrow> int \<Rightarrow> 'a loop_state \<Rightarrow> 'a loop_state option"
    and q mp pl s t
  assume IH: "\<And>q mp pl s t. f q mp pl s = Some t \<Longrightarrow>
      loop_head q mp pl s \<longrightarrow> loop_head q mp pl t \<and> \<not> continue_bool t"
    and eq: "(if continue_bool s then f q mp pl (get_all_entries_body q mp pl s) else Some s) = Some t"
  show "loop_head q mp pl s \<longrightarrow> loop_head q mp pl t \<and> \<not> continue_bool t"
  proof (cases "continue_bool s")
    case True
    with eq have "f q mp pl (get_all_entries_body q mp pl s) = Some t" by simp
    from IH[OF this] True show ?thesis by (blast intro: loop_head.again)
  next
    case False
    with eq show ?thesis by simp
  qed
qed

lemma get_all_entries_loop_head:
  assumes "get_all_entries q mp pl = Some (r, reqs)"
  shows "\<exists>t. loop_head q mp pl t \<and> \<not> continue_bool t \<and> cumulative_data t = r \<and> requests t = reqs"
proof -
  from assms obtain t where t: "get_all_entries_while q mp pl initial_state = Some t"
    and r: "cumulative_data t = r" "requests t = reqs"
    by (auto simp: get_all_entries_def)
  from while_loop_head[OF t] loop_head.start have "loop_head q mp pl t \<and> \<not> continue_bool t"
    by blast
  with r show ?thesis by blast
qed

text \<open>With an integer bound the loop returns, whatever the service answers.\<close>

lemma while_terminates:
  "\<exists>t. get_all_entries_while q (Pages m) pl s = Some t"
proof (induction "nat (m + 1 - int (batch_num s))" arbitrary: s rule: less_induct)
  case less
  show ?case
  proof (cases "continue_bool s")
    case False
    then show ?thesis by (subst get_all_entries_while.simps) simp
  next
    case True
    let ?s' = "get_all_entries_body q (Pages m) pl s"
    have unfold: "get_all_entries_while q (Pages m) pl s = get_all_entries_while q (Pages m) pl ?s'"
      using True by (subst get_all_entries_while.simps) simp
    show ?thesis
    proof (cases "continue_bool ?s'")
      case False
      then have "get_all_entries_while q (Pages m) pl ?s' = Some ?s'"
        by (subst get_all_entries_while.simps) simp
      with unfold show ?thesis by simp
    next
      case c: True
      have "nat (m + 1 - int (batch_num ?s')) < nat (m + 1 - int (batch_num s))"
        using body_continue_le[OF c] by (simp add: body_batch_num)
      from less[OF this] unfold show ?thesis by simp
    qed
  qed
qed

lemma get_all_entries_returns:
  "\<exists>r reqs. get_all_entries q (Pages m) pl = Some (r, reqs)"
proof -
  obtain t where "get_all_entries_while q (Pages m) pl initial_state = Some t"
    using while_terminates by blast
  then show ?thesis by (simp add: get_all_entries_def)
qed

subsection \<open>The requests of \<open>get_all_entries\<close>\<close>

text \<open>
  Claim C7. Every request of \<open>get_all_entries\<close> carries \<open>limit = page_limit\<close>,
  \<open>offset = batch_num * page_limit\<close> for the batch number of its iteration, and the
  fixed filter string. This holds in every iteration: the iteration entered from a state
  \<open>s\<close> at the head of the loop appends exactly that request; the trace at every head of
  the loop is the list of these requests for the batch numbers \<open>0, 1, ...\<close> below the
  current one; and so is the trace of a call that returns.
\<close>

theorem get_all_entries_request_kwargs:
  "(loop_head q maximum_pages page_limit s \<and> continue_bool s \<longrightarrow>
      requests (get_all_entries_body q maximum_pages page_limit s) =
        requests s @
          [[(''limit'', IntV page_limit),
            (''offset'', IntV (int (batch_num s) * page_limit)),
            (''filter'', StrV ''stability <= 0.1 AND delta_e <= 0 AND ntypes < 4'')]])
   \<and> (loop_head q maximum_pages page_limit s \<longrightarrow>
      requests s =
        map (\<lambda>k. [(''limit'', IntV page_limit), (''offset'', IntV (int k * page_limit)),
                  (''filter'', StrV ''stability <= 0.1 AND delta_e <= 0 AND ntypes < 4'')])
          [0..<batch_num s])
   \<and> (get_all_entries q maximum_pages page_limit = Some (r, reqs) \<longrightarrow>
      reqs =
        map (\<lambda>k. [(''limit'', IntV page_limit), (''offset'', IntV (int k * page_limit)),
                  (''filter'', StrV ''stability <= 0.1 AND delta_e <= 0 AND ntypes < 4'')])
          [0..<length reqs])"
proof (intro conjI impI)
  show "requests (get_all_entries_body q maximum_pages page_limit s) =
        requests s @
          [[(''limit'', IntV page_limit),
            (''offset'', IntV (int (batch_num s) * page_limit)),
            (''filter'', StrV ''stability <= 0.1 AND delta_e <= 0 AND ntypes < 4'')]]"
    by (rule body_requests)
next
  assume "loop_head q maximum_pages page_limit s"
  then show "requests s =
        map (\<lambda>k. [(''limit'', IntV page_limit), (''offset'', IntV (int k * page_limit)),
                  (''filter'', StrV ''stability <= 0.1 AND delta_e <= 0 AND ntypes < 4'')])
          [0..<batch_num s]"
    using loop_head_requests by blast
next
  assume "get_all_entries q maximum_pages page_limit = Some (r, reqs)"
  from get_all_entries_loop_head[OF this] obtain t
    where t: "loop_head q maximum_pages page_limit t" "requests t = reqs" by blast
  show "reqs =
        map (\<lambda>k. [(''limit'', IntV page_limit), (''offset'', IntV (int k * page_limit)),
                  (''filter'', StrV ''stability <= 0.1 AND delta_e <= 0 AND ntypes < 4'')])
          [0..<length reqs]"
    unfolding t(2)[symmetric] loop_head_length[OF t(1)]
    by (rule loop_head_requests[OF t(1)])
qed

text \<open>
  The theorem at the service \<open>six_entries\<close> with \<open>page_limit = 2\<close> and no page
  bound: the first iteration appends the request with offset 0, and the call returns all
  six entries after the three requests with the offsets 0, 2 and 4.
\<close>

theorem get_all_entries_request_kwargs_witness:
  "loop_head six_entries Unbounded 2 initial_state
   \<and> continue_bool (initial_state :: nat loop_state)
   \<and> get_all_entries six_entries Unbounded 2 =
       Some ([0, 1, 2, 3, 4, 5],
        [[(''limit'', IntV 2), (''offset'', IntV 0),
          (''filter'', StrV ''stability <= 0.1 AND delta_e <= 0 AND ntypes < 4'')],
         [(''limit'', IntV 2), (''offset'', IntV 2),
          (''filter'', StrV ''stability <= 0.1 AND delta_e <= 0 AND ntypes < 4'')],
         [(''limit'', IntV 2), (''offset'', IntV 4),
          (''filter'', StrV ''stability <= 0.1 AND delta_e <= 0 AND ntypes < 4'')]])
   \<and> requests (get_all_entries_body six_entries Unbounded 2 initial_state) =
       requests (initial_state :: nat loop_state) @
         [[(''limit'', IntV 2),
           (''offset'', IntV (int (batch_num (initial_state :: nat loop_state)) * 2)),
           (''filter'', StrV ''stability <= 0.1 AND delta_e <= 0 AND ntypes < 4'')]]
   \<and> [[(''limit'', IntV 2), (''offset'', IntV 0),
          (''filter'', StrV ''stability <= 0.1 AND delta_e <= 0 AND ntypes < 4'')],
         [(''limit'', IntV 2), (''offset'', IntV 2),
          (''filter'', StrV ''stability <= 0.1 AND delta_e <= 0 AND ntypes < 4'')],
         [(''limit'', IntV 2), (''offset'', IntV 4),
          (''filter'', StrV ''stability <= 0.1 AND delta_e <= 0 AND ntypes < 4'')]] =
       map (\<lambda>k. [(''limit'', IntV 2), (''offset'', IntV (int k * 2)),
                 (''filter'', StrV ''stability <= 0.1 AND delta_e <= 0 AND ntypes < 4'')])
         [0..<length
           [[(''limit'', IntV 2), (''offset'', IntV 0),
             (''filter'', StrV ''stability <= 0.1 AND delta_e <= 0 AND ntypes < 4'')],
            [(''limit'', IntV 2), (''offset'', IntV 2),
             (''filter'', StrV ''stability <= 0.1 AND delta_e <= 0 AND ntypes < 4'')],
            [(''limit'', IntV 2), (''offset'', IntV 4),
             (''filter'', StrV ''stability <= 0.1 AND delta_e <= 0 AND ntypes < 4'')]]]"
proof -
  have h: "loop_head six_entries Unbounded 2 initial_state"
    by (rule loop_head.start)
  have c: "continue_bool (initial_state :: nat loop_state)"
    by (simp add: initial_state_def)
  have run: "get_all_entries six_entries Unbounded 2 =
      Some ([0, 1, 2, 3, 4, 5],
        [[(''limit'', IntV 2), (''offset'', IntV 0),
          (''filter'', StrV ''stability <= 0.1 AND delta_e <= 0 AND ntypes < 4'')],
         [(''limit'', IntV 2), (''offset'', IntV 2),
          (''filter'', StrV ''stability <= 0.1 AND delta_e <= 0 AND ntypes < 4'')],
         [(''limit'', IntV 2), (''offset'', IntV 4),
          (''filter'', StrV ''stability <= 0.1 AND delta_e <= 0 AND ntypes < 4'')]])"
    by code_simp
  note inst = get_all_entries_request_kwargs
    [of six_entries Unbounded 2 initial_state "[0, 1, 2, 3, 4, 5]"
      "[[(''limit'', IntV 2), (''offset'', IntV 0),
          (''filter'', StrV ''stability <= 0.1 AND delta_e <= 0 AND ntypes < 4'')],
         [(''limit'', IntV 2), (''offset'', IntV 2),
          (''filter'', StrV ''stability <= 0.1 AND delta_e <= 0 AND ntypes < 4'')],
         [(''limit'', IntV 2), (''offset'', IntV 4),
          (''filter'', StrV ''stability <= 0.1 AND delta_e <= 0 AND ntypes < 4'')]]"]
  note step = mp[OF conjunct1[OF inst] conjI[OF h c]]
  note trace = mp[OF conjunct2[OF conjunct2[OF inst]] run]
  show ?thesis
    by (intro conjI h c run step trace)
qed

subsection \<open>The pages that \<open>get_all_entries\<close> fetches\<close>

lemma body_cumulative_data:
  "cumulative_data (get_all_entries_body q mp pl s) =
     cumulative_data s @
     data (q (length (requests s))
            [(''limit'', IntV pl), (''offset'', IntV (int (batch_num s) * pl)),
             (''filter'', StrV ''stability <= 0.1 AND delta_e <= 0 AND ntypes < 4'')])"
  by (simp add: get_all_entries_body_def Let_def)

lemma loop_head_cumulative_data:
  "loop_head q mp pl s \<Longrightarrow>
     cumulative_data s =
       concat (map (\<lambda>k. data (q k [(''limit'', IntV pl), (''offset'', IntV (int k * pl)),
                 (''filter'', StrV ''stability <= 0.1 AND delta_e <= 0 AND ntypes < 4'')]))
         [0..<batch_num s])"
proof (induction rule: loop_head.induct)
  case start
  show ?case by (simp add: initial_state_def)
next
  case (again s)
  from loop_head_length[OF again.hyps(1)] again.IH show ?case
    by (simp add: body_cumulative_data body_batch_num)
qed

lemma loop_head_bound:
  "loop_head q (Pages m) pl s \<Longrightarrow> continue_bool s \<Longrightarrow> int (batch_num s) \<le> max m 0"
proof (induction rule: loop_head.induct)
  case start
  show ?case by (simp add: initial_state_def)
next
  case (again s)
  from body_continue_le[OF again.prems] show ?case
    by (simp add: body_batch_num)
qed

text \<open>With the bound \<open>m\<close>, between one and \<open>max m 0 + 1\<close> pages are requested.\<close>

lemma get_all_entries_page_count:
  assumes "get_all_entries q (Pages m) pl = Some (r, reqs)"
  shows "1 \<le> length reqs \<and> int (length reqs) \<le> max m 0 + 1"
proof -
  from get_all_entries_loop_head[OF assms] obtain t where
    t: "loop_head q (Pages m) pl t" "\<not> continue_bool t" "requests t = reqs" by blast
  from t(1) show ?thesis
  proof (cases rule: loop_head.cases)
    case start
    with t(2) show ?thesis by (simp add: initial_state_def)
  next
    case (again s)
    from loop_head_length[OF t(1)] t(3) again(1) have "length reqs = batch_num s + 1"
      by (simp add: body_batch_num)
    with loop_head_bound[OF again(2,3)] show ?thesis by simp
  qed
qed

text \<open>The returned list is the concatenation of the pages, in the order of the requests.\<close>

lemma get_all_entries_concat:
  assumes "get_all_entries q mp pl = Some (r, reqs)"
  shows "r = concat (map (\<lambda>k. data (q k (reqs ! k))) [0..<length reqs])"
proof -
  from get_all_entries_loop_head[OF assms] obtain t where
    t: "loop_head q mp pl t" "cumulative_data t = r" "requests t = reqs" by blast
  have len: "length reqs = batch_num t"
    using loop_head_length[OF t(1)] t(3) by simp
  have reqs: "reqs = map (\<lambda>k. [(''limit'', IntV pl), (''offset'', IntV (int k * pl)),
                 (''filter'', StrV ''stability <= 0.1 AND delta_e <= 0 AND ntypes < 4'')])
         [0..<batch_num t]"
    using loop_head_requests[OF t(1)] t(3) by simp
  have eq: "map (\<lambda>k. data (q k (reqs ! k))) [0..<batch_num t] =
     map (\<lambda>k. data (q k [(''limit'', IntV pl), (''offset'', IntV (int k * pl)),
                 (''filter'', StrV ''stability <= 0.1 AND delta_e <= 0 AND ntypes < 4'')]))
         [0..<batch_num t]"
    by (subst reqs) simp
  show ?thesis
    unfolding len t(2)[symmetric] loop_head_cumulative_data[OF t(1)] eq by (rule refl)
qed

subsection \<open>The page bound of \<open>get_all_entries\<close>\<close>

text \<open>
  Claim C6 says that \<open>get_all_entries\<close> issues at most \<open>maximum_pages\<close> requests. The
  loop tests \<open>batch_num <= maximum_pages\<close> after the increment, so it stops one page
  late: with \<open>maximum_pages = 1\<close>, \<open>page_limit = 2\<close> and the service
  \<open>six_entries\<close>, two requests are issued (offsets 0 and 2) and two pages are returned.
  What does hold is in the lemmas above: with an integer bound the call returns, after
  between one and \<open>max m 0 + 1\<close> requests, and the list is the concatenation of the
  pages in the order of the requests.
\<close>

theorem get_all_entries_exceeds_maximum_pages:
  "get_all_entries six_entries (Pages 1) 2 =
     Some ([0, 1, 2, 3],
       [[(''limit'', IntV 2), (''offset'', IntV 0),
         (''filter'', StrV ''stability <= 0.1 AND delta_e <= 0 AND ntypes < 4'')],
        [(''limit'', IntV 2), (''offset'', IntV 2),
         (''filter'', StrV ''stability <= 0.1 AND delta_e <= 0 AND ntypes < 4'')]])"
  by code_simp

subsection \<open>\<open>get_icsd_entries\<close> fetches one page\<close>

text \<open>
  Claim C5 says that \<open>get_icsd_entries\<close> keeps requesting pages until the next link is
  absent. It has no loop: against the service \<open>six_entries\<close> with \<open>page_limit = 2\<close>
  the first response has a next link, and the call has issued the one request with offset 0
  and returns the first page only.
\<close>

theorem get_icsd_entries_first_page_only:
  "truthy (links_next (six_entries 0
      [(''limit'', IntV 2), (''offset'', IntV 0), (''icsd'', StrV ''T'')]))
   \<and> get_icsd_entries six_entries Unbounded 2 =
       ([0, 1], [[(''limit'', IntV 2), (''offset'', IntV 0), (''icsd'', StrV ''T'')]])"
  by code_simp

section \<open>Properties of \<open>get_ase_object\<close> and \<open>write_data\<close>\<close>

subsection \<open>Cutting a site string\<close>

lemma split_where_not_Nil: "split_where P s \<noteq> []"
  by (induction s) (auto split: list.splits)

lemma str_split_not_Nil: "str_split sep s \<noteq> []"
  by (simp add: str_split_def split_where_not_Nil)

lemma split_where_append:
  "\<forall>c\<in>set t. \<not> P c \<Longrightarrow>
   split_where P (t @ s) = (t @ hd (split_where P s)) # tl (split_where P s)"
proof (induction t)
  case Nil
  show ?case using split_where_not_Nil[of P s] by simp
next
  case (Cons c t)
  then show ?case by simp
qed

lemma split_where_join:
  assumes "ts \<noteq> []" and "\<forall>t\<in>set ts. \<forall>c\<in>set t. \<not> P c" and "P sep"
  shows "split_where P (str_join [sep] ts) = ts"
  using assms
proof (induction "[sep]" ts rule: str_join.induct)
  case 1
  then show ?case by simp
next
  case (2 x)
  then show ?case using split_where_append[of x P "[]"] by simp
next
  case (3 x y ys)
  from 3 have "split_where P (str_join [sep] (y # ys)) = y # ys" by simp
  moreover from 3 have "\<forall>c\<in>set x. \<not> P c" by simp
  ultimately show ?case
    using split_where_append[of x P "sep # str_join [sep] (y # ys)"] \<open>P sep\<close> by simp
qed

text \<open>
  On a site string whose tokens are not empty, hold no whitespace and are joined by single
  spaces, cutting at the spaces gives the whitespace-separated tokens.
\<close>

lemma str_split_single_spaces:
  assumes "ts \<noteq> []" and "\<forall>t\<in>set ts. t \<noteq> [] \<and> (\<forall>c\<in>set t. \<not> is_whitespace c)"
  shows "str_split CHR '' '' (str_join '' '' ts) = ts"
    and "whitespace_tokens (str_join '' '' ts) = ts"
proof -
  have sp: "is_whitespace CHR '' ''" by (simp add: is_whitespace_def)
  from assms(2) sp have "\<forall>t\<in>set ts. \<forall>c\<in>set t. \<not> c = CHR '' ''" by blast
  from split_where_join[OF assms(1) this]
  show "str_split CHR '' '' (str_join '' '' ts) = ts" by (simp add: str_split_def)
  from assms(2) have "\<forall>t\<in>set ts. \<forall>c\<in>set t. \<not> is_whitespace c" by blast
  from split_where_join[OF assms(1) this sp] assms(2)
  show "whitespace_tokens (str_join '' '' ts) = ts"
    by (simp add: whitespace_tokens_def filter_id_conv)
qed

subsection \<open>\<open>get_ase_object\<close>\<close>

lemma sites_loop_closed:
  "sites_loop to_float ss elems coords =
     (case those (map (\<lambda>a. those (map to_float (drop 2 (str_split CHR '' '' a)))) ss) of
        None \<Rightarrow> Inl (ValueError ''could not convert string to float'')
      | Some cs \<Rightarrow> Inr (elems @ map (\<lambda>a. hd (str_split CHR '' '' a)) ss, coords @ cs))"
proof (induction ss arbitrary: elems coords)
  case Nil
  show ?case by simp
next
  case (Cons a ss)
  obtain el toks where sp: "str_split CHR '' '' a = el # toks"
    using str_split_not_Nil[of "CHR '' ''" a] by (cases "str_split CHR '' '' a") auto
  show ?case
  proof (cases "those (map to_float (drop 2 (str_split CHR '' '' a)))")
    case None
    then show ?thesis by (simp add: sp)
  next
    case (Some xs)
    then show ?thesis
      using Cons.IH[of "elems @ [el]" "coords @ [xs]"]
      by (simp add: sp split: option.splits)
  qed
qed

lemma get_ase_object_closed:
  "get_ase_object lib entry =
     (case those (map (\<lambda>atom_info. those (map (float lib) (drop 2 (str_split CHR '' '' atom_info))))
                   (sites entry)) of
        None \<Rightarrow> Inl (ValueError ''could not convert string to float'')
      | Some coords \<Rightarrow>
          Inr (get_atoms lib
                 (Structure lib (Lattice lib (unit_cell entry))
                    (map (\<lambda>atom_info. hd (str_split CHR '' '' atom_info)) (sites entry)) coords),
               entry\<lparr>atoms_obj :=
                        Some (get_atoms lib
                          (Structure lib (Lattice lib (unit_cell entry))
                             (map (\<lambda>atom_info. hd (str_split CHR '' '' atom_info)) (sites entry))
                             coords)),
                      pmg_struct :=
                        Some (Structure lib (Lattice lib (unit_cell entry))
                          (map (\<lambda>atom_info. hd (str_split CHR '' '' atom_info)) (sites entry))
                          coords)\<rparr>))"
  by (simp add: get_ase_object_def sites_loop_closed Let_def split: option.splits)

lemma get_ase_object_keeps:
  "get_ase_object lib entry = Inr (a, entry') \<Longrightarrow>
     oqmd_entry.entry_id entry' = oqmd_entry.entry_id entry \<and> delta_e entry' = delta_e entry"
  by (auto simp: get_ase_object_def Let_def split: sum.splits prod.splits)

text \<open>
  Claim C9, as the code has it. \<open>get_ase_object\<close> cuts every site string at each
  single space character (\<open>split(" ")\<close>: two adjacent spaces or a leading space give an
  empty piece, and a tab does not separate). The element symbol is the first piece; the
  coordinates are the pieces from index 2 onward, each parsed by \<open>float\<close> (the piece at
  index 1 is skipped). When every such piece of every site parses, the structure is built
  from the lattice of \<open>unit_cell\<close> with these elements and coordinates, the atoms object
  and the structure are stored on the entry under \<open>atoms_obj\<close> and \<open>pmg_struct\<close>, and
  the atoms object is returned. When some piece does not parse, \<open>ValueError\<close> is raised
  and the entry is left as it was.
\<close>

theorem get_ase_object_cuts_at_spaces:
  "get_ase_object lib entry =
     (case those (map (\<lambda>atom_info. those (map (float lib) (drop 2 (str_split CHR '' '' atom_info))))
                   (sites entry)) of
        None \<Rightarrow> Inl (ValueError ''could not convert string to float'')
      | Some coords \<Rightarrow>
          Inr (get_atoms lib
                 (Structure lib (Lattice lib (unit_cell entry))
                    (map (\<lambda>atom_info. hd (str_split CHR '' '' atom_info)) (sites entry)) coords),
               entry\<lparr>atoms_obj :=
                        Some (get_atoms lib
                          (Structure lib (Lattice lib (unit_cell entry))
                             (map (\<lambda>atom_info. hd (str_split CHR '' '' atom_info)) (sites entry))
                             coords)),
                      pmg_struct :=
                        Some (Structure lib (Lattice lib (unit_cell entry))
                          (map (\<lambda>atom_info. hd (str_split CHR '' '' atom_info)) (sites entry))
                          coords)\<rparr>))"
  by (rule get_ase_object_closed)

text \<open>The theorem at an entry with two sites, with the library \<open>plain_lib\<close>.\<close>

theorem get_ase_object_cuts_at_spaces_witness:
  "get_ase_object plain_lib entry_Fe =
     Inr (([[2, 0, 0], [0, 2, 0], [0, 0, 2]], [''Fe'', ''Fe''], [[0, 0, 0], [1, 1, 1]]),
          entry_Fe\<lparr>atoms_obj :=
                     Some ([[2, 0, 0], [0, 2, 0], [0, 0, 2]], [''Fe'', ''Fe''], [[0, 0, 0], [1, 1, 1]]),
                   pmg_struct :=
                     Some ([[2, 0, 0], [0, 2, 0], [0, 0, 2]], [''Fe'', ''Fe''], [[0, 0, 0], [1, 1, 1]])\<rparr>)"
  using get_ase_object_cuts_at_spaces[of plain_lib entry_Fe]
  by (simp add: entry_Fe_def plain_lib_def str_split_def decimal_def)

text \<open>
  Claim C9 as it is worded fails on a site string with two spaces after the element symbol.
  Its whitespace-separated tokens are \<open>Fe\<close>, \<open>@\<close>, \<open>0\<close>, \<open>0\<close>, \<open>0\<close>, so in
  the words of the claim the symbol is \<open>Fe\<close> and the coordinates are \<open>0 0 0\<close>;
  the code gets the pieces \<open>Fe\<close>, the empty string, \<open>@\<close>, \<open>0\<close>, \<open>0\<close>, \<open>0\<close>,
  passes \<open>@\<close> to \<open>float\<close> and raises \<open>ValueError\<close>.
\<close>

theorem get_ase_object_whitespace_counterexample:
  "sites entry_two_spaces = [''Fe  @ 0 0 0'']
   \<and> site_by_whitespace (float plain_lib) ''Fe  @ 0 0 0'' = Some (''Fe'', [0, 0, 0])
   \<and> str_split CHR '' '' ''Fe  @ 0 0 0'' = [''Fe'', [], ''@'', ''0'', ''0'', ''0'']
   \<and> get_ase_object plain_lib entry_two_spaces =
       Inl (ValueError ''could not convert string to float'')"
  by code_simp

subsection \<open>\<open>write_data\<close>\<close>


lemma write_data_loop_ok:
  "list_all2 (\<lambda>entry r. get_ase_object lib entry = Inr r) entries results \<Longrightarrow>
   write_data_loop lib entries db seen =
     Inr (db @ map2 (\<lambda>entry r. \<lparr>row_atoms = fst r, source = ''oqmd'',
                                  bulk_id = ''oqmd-'' @ str_int (oqmd_entry.entry_id entry),
                                  formation_energy = delta_e entry\<rparr>) entries results,
          seen @ map snd results)"
proof (induction arbitrary: db seen rule: list_all2_induct)
  case Nil
  show ?case by simp
next
  case (Cons entry entries r results)
  obtain a entry' where r: "r = (a, entry')" by (cases r)
  with Cons.hyps have g: "get_ase_object lib entry = Inr (a, entry')" by simp
  from get_ase_object_keeps[OF g] Cons.IH show ?case
    by (simp add: g r)
qed

lemma write_data_loop_fail:
  "\<exists>entry\<in>set entries. \<exists>err. get_ase_object lib entry = Inl err \<Longrightarrow>
   \<exists>err. write_data_loop lib entries db seen = Inl err"
proof (induction entries arbitrary: db seen)
  case Nil
  then show ?case by simp
next
  case (Cons entry entries)
  show ?case
  proof (cases "get_ase_object lib entry")
    case (Inl err)
    then show ?thesis by simp
  next
    case (Inr r)
    with Cons.prems have "\<exists>entry\<in>set entries. \<exists>err. get_ase_object lib entry = Inl err"
      by auto
    from Cons.IH[OF this] Inr show ?thesis
      by (simp split: prod.splits)
  qed
qed

text \<open>
  Claim C8, as the code has it. When \<open>get_ase_object\<close> builds an atoms object for every
  entry of the list, \<open>write_data\<close> appends to the database at the path exactly one row
  per entry, in the order of the list; the row of an entry holds the atoms object that
  \<open>get_ase_object\<close> built from it, \<open>source = "oqmd"\<close>, \<open>bulk_id\<close> equal to
  \<open>"oqmd-"\<close> followed by the decimal digits of the entry's \<open>entry_id\<close>, and
  \<open>formation_energy\<close> equal to the entry's \<open>delta_e\<close>; the entries are left as
  \<open>get_ase_object\<close> updated them. When \<open>get_ase_object\<close> raises for some entry,
  \<open>write_data\<close> raises.
\<close>

theorem write_data_rows:
  "(list_all2 (\<lambda>entry r. get_ase_object lib entry = Inr r) entries results \<longrightarrow>
      write_data lib entries path files =
        Inr (files(path := files path @
               map2 (\<lambda>entry r. \<lparr>row_atoms = fst r, source = ''oqmd'',
                                  bulk_id = ''oqmd-'' @ str_int (oqmd_entry.entry_id entry),
                                  formation_energy = delta_e entry\<rparr>) entries results),
             map snd results))
   \<and> ((\<exists>entry\<in>set entries. \<exists>err. get_ase_object lib entry = Inl err) \<longrightarrow>
      (\<exists>err. write_data lib entries path files = Inl err))"
proof (intro conjI impI)
  assume "list_all2 (\<lambda>entry r. get_ase_object lib entry = Inr r) entries results"
  from write_data_loop_ok[OF this, of "files path" "[]"]
  show "write_data lib entries path files =
        Inr (files(path := files path @
               map2 (\<lambda>entry r. \<lparr>row_atoms = fst r, source = ''oqmd'',
                                  bulk_id = ''oqmd-'' @ str_int (oqmd_entry.entry_id entry),
                                  formation_energy = delta_e entry\<rparr>) entries results),
             map snd results)"
    by (simp add: write_data_def)
next
  assume "\<exists>entry\<in>set entries. \<exists>err. get_ase_object lib entry = Inl err"
  from write_data_loop_fail[OF this, of "files path" "[]"]
  show "\<exists>err. write_data lib entries path files = Inl err"
    by (auto simp: write_data_def)
qed

text \<open>
  The theorem at two entries that convert (both rows are written, in order), and at a list
  whose second entry has a site without numbers (the call raises).
\<close>

lemma conv_Fe:
  "get_ase_object plain_lib entry_Fe =
     Inr (([[2, 0, 0], [0, 2, 0], [0, 0, 2]], [''Fe'', ''Fe''], [[0, 0, 0], [1, 1, 1]]),
          entry_Fe\<lparr>atoms_obj :=
                     Some ([[2, 0, 0], [0, 2, 0], [0, 0, 2]], [''Fe'', ''Fe''], [[0, 0, 0], [1, 1, 1]]),
                   pmg_struct :=
                     Some ([[2, 0, 0], [0, 2, 0], [0, 0, 2]], [''Fe'', ''Fe''], [[0, 0, 0], [1, 1, 1]])\<rparr>)"
  by (simp add: get_ase_object_closed entry_Fe_def plain_lib_def str_split_def decimal_def)

lemma conv_NaCl:
  "get_ase_object plain_lib entry_NaCl =
     Inr (([[4, 0, 0], [0, 4, 0], [0, 0, 4]], [''Na'', ''Cl''], [[0, 0, 0], [2, 2, 2]]),
          entry_NaCl\<lparr>atoms_obj :=
                     Some ([[4, 0, 0], [0, 4, 0], [0, 0, 4]], [''Na'', ''Cl''], [[0, 0, 0], [2, 2, 2]]),
                   pmg_struct :=
                     Some ([[4, 0, 0], [0, 4, 0], [0, 0, 4]], [''Na'', ''Cl''], [[0, 0, 0], [2, 2, 2]])\<rparr>)"
  by (simp add: get_ase_object_closed entry_NaCl_def plain_lib_def str_split_def decimal_def)

lemma str_int_4061: "str_int 4061 = ''4061''"
  by code_simp

lemma str_int_1216: "str_int 1216 = ''1216''"
  by code_simp

theorem write_data_rows_witness:
  "write_data plain_lib [entry_Fe, entry_NaCl] ''oqmd.db'' (\<lambda>path. []) =
     Inr ((\<lambda>path. [])(''oqmd.db'' :=
            [\<lparr>row_atoms = ([[2, 0, 0], [0, 2, 0], [0, 0, 2]], [''Fe'', ''Fe''], [[0, 0, 0], [1, 1, 1]]),
              source = ''oqmd'', bulk_id = ''oqmd-4061'', formation_energy = 0\<rparr>,
             \<lparr>row_atoms = ([[4, 0, 0], [0, 4, 0], [0, 0, 4]], [''Na'', ''Cl''], [[0, 0, 0], [2, 2, 2]]),
              source = ''oqmd'', bulk_id = ''oqmd-1216'', formation_energy = - 2\<rparr>]),
          [entry_Fe\<lparr>atoms_obj :=
                     Some ([[2, 0, 0], [0, 2, 0], [0, 0, 2]], [''Fe'', ''Fe''], [[0, 0, 0], [1, 1, 1]]),
                   pmg_struct :=
                     Some ([[2, 0, 0], [0, 2, 0], [0, 0, 2]], [''Fe'', ''Fe''], [[0, 0, 0], [1, 1, 1]])\<rparr>,
           entry_NaCl\<lparr>atoms_obj :=
                     Some ([[4, 0, 0], [0, 4, 0], [0, 0, 4]], [''Na'', ''Cl''], [[0, 0, 0], [2, 2, 2]]),
                   pmg_struct :=
                     Some ([[4, 0, 0], [0, 4, 0], [0, 0, 4]], [''Na'', ''Cl''], [[0, 0, 0], [2, 2, 2]])\<rparr>])
   \<and> (\<exists>err. write_data plain_lib [entry_Fe, entry_no_number] ''oqmd.db'' (\<lambda>path. []) = Inl err)"
proof -
  let ?r1 = "(([[2, 0, 0], [0, 2, 0], [0, 0, 2]], [''Fe'', ''Fe''], [[0, 0, 0], [1, 1, 1::int]]),
          entry_Fe\<lparr>atoms_obj :=
                     Some ([[2, 0, 0], [0, 2, 0], [0, 0, 2]], [''Fe'', ''Fe''], [[0, 0, 0], [1, 1, 1]]),
                   pmg_struct :=
                     Some ([[2, 0, 0], [0, 2, 0], [0, 0, 2]], [''Fe'', ''Fe''], [[0, 0, 0], [1, 1, 1]])\<rparr>)"
  let ?r2 = "(([[4, 0, 0], [0, 4, 0], [0, 0, 4]], [''Na'', ''Cl''], [[0, 0, 0], [2, 2, 2::int]]),
          entry_NaCl\<lparr>atoms_obj :=
                     Some ([[4, 0, 0], [0, 4, 0], [0, 0, 4]], [''Na'', ''Cl''], [[0, 0, 0], [2, 2, 2]]),
                   pmg_struct :=
                     Some ([[4, 0, 0], [0, 4, 0], [0, 0, 4]], [''Na'', ''Cl''], [[0, 0, 0], [2, 2, 2]])\<rparr>)"
  have all: "list_all2 (\<lambda>entry r. get_ase_object plain_lib entry = Inr r)
      [entry_Fe, entry_NaCl] [?r1, ?r2]"
    by (simp add: conv_Fe conv_NaCl)
  have bad: "\<exists>entry\<in>set [entry_Fe, entry_no_number]. \<exists>err. get_ase_object plain_lib entry = Inl err"
    by (simp add: get_ase_object_closed entry_no_number_def entry_Fe_def plain_lib_def
          str_split_def decimal_def)
  have ids: "oqmd_entry.entry_id entry_Fe = 4061" "oqmd_entry.entry_id entry_NaCl = 1216"
    "delta_e entry_Fe = 0" "delta_e entry_NaCl = - 2"
    by (simp_all add: entry_Fe_def entry_NaCl_def)
  from mp[OF conjunct1[OF write_data_rows
        [of plain_lib "[entry_Fe, entry_NaCl]" "[?r1, ?r2]" "''oqmd.db''" "\<lambda>path. []"]] all]
  have ok: "write_data plain_lib [entry_Fe, entry_NaCl] ''oqmd.db'' (\<lambda>path. []) =
     Inr ((\<lambda>path. [])(''oqmd.db'' :=
            [\<lparr>row_atoms = ([[2, 0, 0], [0, 2, 0], [0, 0, 2]], [''Fe'', ''Fe''], [[0, 0, 0], [1, 1, 1]]),
              source = ''oqmd'', bulk_id = ''oqmd-4061'', formation_energy = 0\<rparr>,
             \<lparr>row_atoms = ([[4, 0, 0], [0, 4, 0], [0, 0, 4]], [''Na'', ''Cl''], [[0, 0, 0], [2, 2, 2]]),
              source = ''oqmd'', bulk_id = ''oqmd-1216'', formation_energy = - 2\<rparr>]),
          [snd ?r1, snd ?r2])"
    by (simp add: ids str_int_4061 str_int_1216)
  from mp[OF conjunct2[OF write_data_rows
        [of plain_lib "[entry_Fe, entry_no_number]" _ "''oqmd.db''" "\<lambda>path. []"]] bad]
  have fails: "\<exists>err. write_data plain_lib [entry_Fe, entry_no_number] ''oqmd.db'' (\<lambda>path. []) = Inl err" .
  from ok fails show ?thesis by simp
qed

text \<open>
  Claim C8 as it is worded, for every list of entries, fails on an entry whose site string
  holds no numbers: \<open>float("x")\<close> raises inside \<open>get_ase_object\<close>, before
  \<open>db.write\<close> is reached, and no row is written for the entry.
\<close>

theorem write_data_raises_counterexample:
  "sites entry_no_number = [''Fe @ x y z'']
   \<and> write_data plain_lib [entry_no_number] ''oqmd.db'' (\<lambda>path. []) =
       Inl (ValueError ''could not convert string to float'')"
  by (simp add: write_data_def get_ase_object_closed entry_no_number_def entry_Fe_def
      plain_lib_def str_split_def decimal_def)

section \<open>Properties of \<open>get_pourbaix_entries_w_add_entries\<close>\<close>

subsection \<open>The most stable reference entry\<close>




subsection \<open>The loop over the ion records\<close>






subsection \<open>The loop over the solid entries, and the stages of the function\<close>


lemma solid_loop_Inl:
  "solid_loop w ion_ref_pd extra_elts entries acc = Inl err \<Longrightarrow> err = NameError ''ComputedEntry''"
  by (induction entries arbitrary: acc) (auto split: if_splits)

lemma solid_loop_bound:
  "''ComputedEntry'' \<in> set (extra_globals w) \<Longrightarrow>
   solid_loop w ion_ref_pd extra_elts entries acc =
     Inr (acc @ map (solid_pourbaix_entry ion_ref_pd) (filter (is_solid_entry extra_elts) entries))"
  by (induction entries arbitrary: acc) auto

lemma validate_solid_compat_Inl:
  "validate_solid_compat arg = Inl err \<longleftrightarrow>
     (arg \<noteq> Str ''MaterialsProjectCompatibility'' \<and>
      arg \<noteq> Str ''MaterialsProject2020Compatibility'' \<and>
      (\<forall>c. arg \<noteq> Instance c) \<and>
      err = ValueError ''Solid compatibility can only be 'MaterialsProjectCompatibility', 'MaterialsProject2020Compatibility', or an instance of a Compatibility class'')"
  by (cases arg) (auto simp: validate_solid_compat_def)

lemma ion_pourbaix_entry_Inl:
  "ion_pourbaix_entry w ion_ref_pd ion_ref_entries n i_d = Inl err \<Longrightarrow>
     err = ValueError ''Reference solid not contained in entry list'' \<or>
     err = KeyError ''e_above_hull'' \<or> err = IndexError \<or> err = ZeroDivisionError"
  by (auto simp: ion_pourbaix_entry_def Let_def split: if_splits option.splits list.splits)

lemma ion_loop_Inl_kind:
  "ion_loop w ion_ref_pd ion_ref_entries n ion_data acc = Inl err \<Longrightarrow>
     err = ValueError ''Reference solid not contained in entry list'' \<or>
     err = KeyError ''e_above_hull'' \<or> err = IndexError \<or> err = ZeroDivisionError"
proof (induction ion_data arbitrary: n acc)
  case Nil
  then show ?case by simp
next
  case (Cons i_d rest)
  show ?case
  proof (cases "ion_pourbaix_entry w ion_ref_pd ion_ref_entries n i_d")
    case (Inl e)
    with Cons.prems have "e = err" by simp
    with ion_pourbaix_entry_Inl[OF Inl] show ?thesis by simp
  next
    case (Inr p)
    with Cons.prems Cons.IH show ?thesis by simp
  qed
qed


lemma get_pourbaix_entries_invalid:
  "validate_solid_compat solid_compat_a = Inl err \<Longrightarrow>
   get_pourbaix_entries_w_add_entries w self chemsys solid_compat_a additional_entries = (Inl err, self)"
  by (simp add: get_pourbaix_entries_w_add_entries_def)



lemma get_pourbaix_entries_Inl_valid:
  assumes "validate_solid_compat solid_compat_a = Inr sc"
    and "fst (get_pourbaix_entries_w_add_entries w self chemsys solid_compat_a additional_entries)
           = Inl err"
  shows "(\<exists>x. err = LibraryError x) \<or> (\<exists>name. err = NameError name) \<or>
     err = ValueError ''Reference solid not contained in entry list'' \<or>
     err = KeyError ''e_above_hull'' \<or> err = IndexError \<or> err = ZeroDivisionError"
  using assms
  by (auto simp: get_pourbaix_entries_w_add_entries_def Let_def
      split: sum.splits if_splits dest: ion_loop_Inl_kind solid_loop_Inl)


subsection \<open>Concrete runs\<close>




lemma run_lacking_entry:
  "ion_pourbaix_entry patched_world energy [S8_entry, O2_entry] 0 sulfate_record =
     Inl (ValueError ''Reference solid not contained in entry list'')"
  by code_simp

subsection \<open>The energy of an ion entry\<close>



subsection \<open>The reference solid that is not contained\<close>




subsection \<open>The returned list\<close>



subsection \<open>The names that are not imported\<close>




subsection \<open>The validation of \<open>solid_compat\<close>\<close>

text \<open>
  Claim C10. \<open>get_pourbaix_entries_w_add_entries\<close> raises the \<open>ValueError\<close> whose
  message names the accepted options if and only if \<open>solid_compat\<close> is neither the
  string "MaterialsProjectCompatibility", nor the string "MaterialsProject2020Compatibility",
  nor an instance of \<open>Compatibility\<close>. On this error nothing else has happened: the
  object \<open>self\<close> is as it was (no attribute assigned, no call to the Materials Project
  made) and no Pourbaix entry is produced.
\<close>

theorem solid_compat_validation:
  "(fst (get_pourbaix_entries_w_add_entries w self chemsys solid_compat_a additional_entries) =
      Inl (ValueError ''Solid compatibility can only be 'MaterialsProjectCompatibility', 'MaterialsProject2020Compatibility', or an instance of a Compatibility class''))
    = (solid_compat_a \<noteq> Str ''MaterialsProjectCompatibility'' \<and>
       solid_compat_a \<noteq> Str ''MaterialsProject2020Compatibility'' \<and>
       (\<forall>c. solid_compat_a \<noteq> Instance c))
   \<and> (solid_compat_a \<noteq> Str ''MaterialsProjectCompatibility'' \<and>
       solid_compat_a \<noteq> Str ''MaterialsProject2020Compatibility'' \<and>
       (\<forall>c. solid_compat_a \<noteq> Instance c) \<longrightarrow>
       get_pourbaix_entries_w_add_entries w self chemsys solid_compat_a additional_entries =
         (Inl (ValueError ''Solid compatibility can only be 'MaterialsProjectCompatibility', 'MaterialsProject2020Compatibility', or an instance of a Compatibility class''),
          self))"
proof (cases "validate_solid_compat solid_compat_a")
  case (Inl err)
  from Inl validate_solid_compat_Inl[of solid_compat_a err]
  have inv: "solid_compat_a \<noteq> Str ''MaterialsProjectCompatibility'' \<and>
       solid_compat_a \<noteq> Str ''MaterialsProject2020Compatibility'' \<and>
       (\<forall>c. solid_compat_a \<noteq> Instance c)"
    and err: "err = ValueError ''Solid compatibility can only be 'MaterialsProjectCompatibility', 'MaterialsProject2020Compatibility', or an instance of a Compatibility class''"
    by blast+
  from get_pourbaix_entries_invalid[OF Inl, of w self chemsys additional_entries] inv err
  show ?thesis by simp
next
  case (Inr sc)
  from Inr validate_solid_compat_Inl[of solid_compat_a]
  have valid: "\<not> (solid_compat_a \<noteq> Str ''MaterialsProjectCompatibility'' \<and>
       solid_compat_a \<noteq> Str ''MaterialsProject2020Compatibility'' \<and>
       (\<forall>c. solid_compat_a \<noteq> Instance c))"
    by auto
  have "fst (get_pourbaix_entries_w_add_entries w self chemsys solid_compat_a additional_entries) \<noteq>
      Inl (ValueError ''Solid compatibility can only be 'MaterialsProjectCompatibility', 'MaterialsProject2020Compatibility', or an instance of a Compatibility class'')"
  proof
    assume "fst (get_pourbaix_entries_w_add_entries w self chemsys solid_compat_a additional_entries) =
      Inl (ValueError ''Solid compatibility can only be 'MaterialsProjectCompatibility', 'MaterialsProject2020Compatibility', or an instance of a Compatibility class'')"
    from get_pourbaix_entries_Inl_valid[OF Inr this] show False by simp
  qed
  with valid show ?thesis by blast
qed

text \<open>
  The theorem at an object that is neither (the call raises, \<open>self\<close> unchanged) and at
  the default string (the error is not raised).
\<close>

theorem solid_compat_validation_witness:
  "get_pourbaix_entries_w_add_entries shipped_world fresh_rester (Chemsys_str ''S'') Object
       [S2O_entry] =
     (Inl (ValueError ''Solid compatibility can only be 'MaterialsProjectCompatibility', 'MaterialsProject2020Compatibility', or an instance of a Compatibility class''),
      fresh_rester)
   \<and> fst (get_pourbaix_entries_w_add_entries shipped_world fresh_rester (Chemsys_str ''S'') Object
            [S2O_entry]) =
       Inl (ValueError ''Solid compatibility can only be 'MaterialsProjectCompatibility', 'MaterialsProject2020Compatibility', or an instance of a Compatibility class'')
   \<and> fst (get_pourbaix_entries_w_add_entries shipped_world fresh_rester (Chemsys_str ''S'')
            (Str ''MaterialsProject2020Compatibility'') [S2O_entry]) \<noteq>
       Inl (ValueError ''Solid compatibility can only be 'MaterialsProjectCompatibility', 'MaterialsProject2020Compatibility', or an instance of a Compatibility class'')"
proof -
  have bad: "Object \<noteq> Str ''MaterialsProjectCompatibility'' \<and>
       Object \<noteq> Str ''MaterialsProject2020Compatibility'' \<and>
       (\<forall>c. Object \<noteq> Instance c)"
    by simp
  have good: "\<not> (Str ''MaterialsProject2020Compatibility'' \<noteq> Str ''MaterialsProjectCompatibility'' \<and>
       Str ''MaterialsProject2020Compatibility'' \<noteq> Str ''MaterialsProject2020Compatibility'' \<and>
       (\<forall>c. Str ''MaterialsProject2020Compatibility'' \<noteq> Instance c))"
    by simp
  note rejected = solid_compat_validation
    [of shipped_world fresh_rester "Chemsys_str ''S''" Object "[S2O_entry]"]
  note accepted = solid_compat_validation
    [of shipped_world fresh_rester "Chemsys_str ''S''" "Str ''MaterialsProject2020Compatibility''"
      "[S2O_entry]"]
  note a = mp[OF conjunct2[OF rejected] bad]
  note b = iffD2[OF conjunct1[OF rejected] bad]
  from conjunct1[OF accepted] good
  have c: "fst (get_pourbaix_entries_w_add_entries shipped_world fresh_rester (Chemsys_str ''S'')
            (Str ''MaterialsProject2020Compatibility'') [S2O_entry]) \<noteq>
       Inl (ValueError ''Solid compatibility can only be 'MaterialsProjectCompatibility', 'MaterialsProject2020Compatibility', or an instance of a Compatibility class'')"
    by blast
  show ?thesis
    by (intro conjI a b c)
qed


end
